theory Spec2Isabelle
  imports Complex_Main "HOL-Library.Word" "HOL-Library.AList" "HOL-Library.List_Lexorder"
begin

section \<open>The firmware flasher page: strings, values and page state\<close>

text \<open>
  The page is one React component. Its handlers are asynchronous functions over the
  component's state variables and refs; every call they make into the browser, the
  serial loader or the network can fail. Each handler is embedded as a function from
  the state before the call (and the outcomes of the external calls it makes) to the
  state after it and the list of external effects it performed, in order.
\<close>

subsection \<open>JavaScript strings\<close>

text \<open>A JavaScript string is a sequence of UTF-16 code units; a binary is a byte sequence.\<close>

type_synonym jsstring = "16 word list"
type_synonym bytes = "8 word list"

definition js :: "string \<Rightarrow> jsstring" where
  "js cs = map (\<lambda>c. word_of_nat (of_char c)) cs"

text \<open>
  \<open>String.prototype.trim\<close> removes leading and trailing WhiteSpace and LineTerminator
  code points: TAB, LF, VT, FF, CR, SPACE, NBSP, the Unicode space separators, LS, PS
  and the byte order mark.
\<close>

definition isWhiteSpace :: "16 word \<Rightarrow> bool" where
  "isWhiteSpace c \<longleftrightarrow>
     c \<in> set [0x9, 0xA, 0xB, 0xC, 0xD, 0x20, 0xA0, 0x1680, 0x2028, 0x2029, 0x202F, 0x205F,
               0x3000, 0xFEFF]
     \<or> (0x2000 \<le> c \<and> c \<le> 0x200A)"

definition trim :: "jsstring \<Rightarrow> jsstring" where
  "trim s = rev (dropWhile isWhiteSpace (rev (dropWhile isWhiteSpace s)))"

definition isHexDigit :: "16 word \<Rightarrow> bool" where
  "isHexDigit c \<longleftrightarrow>
     (0x30 \<le> c \<and> c \<le> 0x39) \<or> (0x61 \<le> c \<and> c \<le> 0x66) \<or> (0x41 \<le> c \<and> c \<le> 0x46)"

text \<open>
  The test \<^verbatim>\<open>/^0x[0-9a-fA-F]+$/.test(s)\<close>: the whole string is the two code units \<open>0x\<close>
  followed by one or more hexadecimal digits (the regular expression has no flags, so
  \<open>$\<close> is the end of the input and the letters are case-sensitive).
\<close>

definition isValidAddr :: "jsstring \<Rightarrow> bool" where
  "isValidAddr s =
     (case s of
        a # b # digits \<Rightarrow> a = 0x30 \<and> b = 0x78 \<and> digits \<noteq> [] \<and> list_all isHexDigit digits
      | _ \<Rightarrow> False)"

definition hexValue :: "16 word \<Rightarrow> nat" where
  "hexValue c =
     (if 0x30 \<le> c \<and> c \<le> 0x39 then unat c - 0x30
      else if 0x61 \<le> c \<and> c \<le> 0x66 then unat c - 0x61 + 10
      else unat c - 0x41 + 10)"

text \<open>
  \<open>parseInt(s, 16)\<close> on a string that passed \<open>isValidAddr\<close>: the prefix \<open>0x\<close> is
  skipped and the digits are read in base 16. (JavaScript rounds the value to the
  nearest double; it is exact below \<open>2^53\<close>. The value is only handed to the loader.)
\<close>

definition parseInt16 :: "jsstring \<Rightarrow> nat" where
  "parseInt16 s = foldl (\<lambda>acc c. 16 * acc + hexValue c) 0 (drop 2 s)"

definition endsWith :: "jsstring \<Rightarrow> jsstring \<Rightarrow> bool" where
  "endsWith s suffix \<longleftrightarrow>
     length suffix \<le> length s \<and> drop (length s - length suffix) s = suffix"

subsection \<open>Thrown values\<close>

text \<open>
  Whatever a failing call throws or rejects with. Every handler reports it as
  \<^verbatim>\<open>error instanceof Error ? error.message : 'Unknown error'\<close>.
\<close>

datatype thrown = Error jsstring | NonError

definition errorMessage :: "thrown \<Rightarrow> jsstring" where
  "errorMessage e = (case e of Error msg \<Rightarrow> msg | NonError \<Rightarrow> js ''Unknown error'')"

subsection \<open>Progress values\<close>

text \<open>
  The callback handed to \<open>writeFlash\<close> computes
  \<^verbatim>\<open>Math.round(10 + ((written / total) * 100) * 0.9)\<close>.
  The arithmetic is taken over the rationals; \<open>Math.round\<close> rounds halves upwards.
  With \<open>total = 0\<close> the quotient is \<open>NaN\<close> or \<open>Infinity\<close> and so is the value set.
\<close>

datatype progress_value = Percent int | NonFinite

definition js_round :: "rat \<Rightarrow> int" where
  "js_round x = \<lfloor>x + 1 / 2\<rfloor>"

definition reportProgress :: "nat \<Rightarrow> nat \<Rightarrow> nat \<Rightarrow> progress_value" where
  "reportProgress fileIndex written total' =
     (if total' = 0 then NonFinite
      else
        let fileProgress = (of_nat written / of_nat total') * 100;
            totalProgress = 10 + fileProgress * (9 / 10)
        in Percent (js_round totalProgress))"

subsection \<open>Handles, files and the console log\<close>

datatype serial_port = SerialPort nat
datatype transport = Transport serial_port
datatype esp_loader = ESPLoader transport

record firmware_file =
  fileName :: jsstring
  fileContent :: bytes

text \<open>\<open>FirmwareInfo\<close>: what the list of stored firmwares shows.\<close>

record firmware_info =
  infoName :: jsstring
  infoSize :: nat
  infoTimestamp :: nat

record github_asset =
  assetName :: jsstring
  browser_download_url :: jsstring

record github_firmware =
  fwName :: jsstring
  fwUrl :: jsstring

datatype source = GithubApi | AllOrigins | CorsProxy

text \<open>
  The lines \<open>addLog\<close> appends to the console, one constructor per message of the
  source (the clock prefix \<open>addLog\<close> puts in front is left out). \<open>console.log\<close> and
  \<open>console.error\<close> write to the browser console only and are not recorded.
\<close>

datatype log_msg =
    SerialUnsupported | RequestingPort | ConnectingToDevice | LoaderLine jsstring
  | ConnectedTo jsstring | MacAddress jsstring | ErrorMsg jsstring
  | Disconnected | DisconnectWarning jsstring
  | NoDeviceOrFirmware | InvalidFlashAddress | StartingFlash | FileSize nat
  | WritingFirmware jsstring | FlashCompletedOk | FinalizingFlash | SendingResetSignals
  | ClosingTransport | ClosingSerialPort | CleanupWarnings | CompletionNote nat
  | FlashError jsstring
  | FetchingFromGithub | TryingGithubApi | FetchedFromApi | TryingProxy source
  | FetchedVia source | NoBinFiles | FoundFirmwares nat | FetchError jsstring
  | ManualHint nat
  | DeletedFromStorage jsstring | DeleteError jsstring
  | ClearingAll | AllCleared | ClearError jsstring

subsection \<open>The component's state\<close>

text \<open>
  The \<open>useState\<close> variables and \<open>useRef\<close> cells the handlers read and write.
  \<open>portReadable\<close> is the \<open>readable\<close> property of the serial port the page acquired:
  non-null exactly while the port is open. The loader's \<open>main()\<close> opens the port;
  a successful \<open>Transport.disconnect()\<close> or \<open>SerialPort.close()\<close> closes it.
\<close>

record state =
  isConnected :: bool
  isFlashing :: bool
  progress :: progress_value
  logs :: "log_msg list"
  firmwareFile :: "firmware_file option"
  chipInfo :: jsstring
  flashAddress :: jsstring
  showGithubDialog :: bool
  githubFirmwares :: "github_firmware list"
  isFetchingGithub :: bool
  localFirmwares :: "firmware_info list"
  transportRef :: "transport option"
  espLoaderRef :: "esp_loader option"
  serialPortRef :: "serial_port option"
  portReadable :: bool

definition addLog :: "log_msg \<Rightarrow> state \<Rightarrow> state" where
  "addLog message s = s\<lparr>logs := logs s @ [message]\<rparr>"

definition addLogs :: "log_msg list \<Rightarrow> state \<Rightarrow> state" where
  "addLogs messages s = s\<lparr>logs := logs s @ messages\<rparr>"

text \<open>The calls a handler makes outside the component, and the values it publishes.\<close>

datatype effect =
    SetProgress progress_value
  | FileRead
  | RequestPort
  | LoaderMain
  | ReadMac
  | WriteFlash nat bytes
  | SetSignals bool bool
  | Delay nat
  | TransportDisconnect
  | PortClose
  | Fetch source
  | Confirm
  | DbOpen
  | DbPut jsstring
  | DbGet jsstring
  | DbGetAll
  | DbDelete jsstring
  | DbDeleteDatabase

definition isDeviceIO :: "effect \<Rightarrow> bool" where
  "isDeviceIO e =
     (case e of
        RequestPort \<Rightarrow> True | LoaderMain \<Rightarrow> True | ReadMac \<Rightarrow> True
      | WriteFlash a d \<Rightarrow> True | SetSignals d r \<Rightarrow> True
      | TransportDisconnect \<Rightarrow> True | PortClose \<Rightarrow> True
      | _ \<Rightarrow> False)"

definition published :: "effect list \<Rightarrow> progress_value list" where
  "published fx = concat (map (\<lambda>e. case e of SetProgress v \<Rightarrow> [v] | _ \<Rightarrow> []) fx)"

fun percentOf :: "progress_value \<Rightarrow> int option" where
  "percentOf (Percent p) = Some p"
| "percentOf NonFinite = None"

text \<open>A published sequence is non-decreasing: every value is a number and none is below its predecessor.\<close>

fun nondecreasing :: "progress_value list \<Rightarrow> bool" where
  "nondecreasing [] = True"
| "nondecreasing [v] = (percentOf v \<noteq> None)"
| "nondecreasing (v # w # vs) =
     (case (percentOf v, percentOf w) of
        (Some p, Some q) \<Rightarrow> p \<le> q \<and> nondecreasing (w # vs)
      | _ \<Rightarrow> False)"

section \<open>The flashing session\<close>

subsection \<open>connectToDevice\<close>

text \<open>
  What \<open>esploader.main()\<close> can do: detect the chip; fail before the port is open
  (the port cannot be opened); or fail after it has opened the port, when the
  handshake with the chip fails or times out.
\<close>

datatype main_outcome = ChipDetected jsstring | OpenFailed thrown | HandshakeFailed thrown

record connect_env =
  serialAvailable :: bool
  portRequest :: "thrown + serial_port"
  mainLines :: "jsstring list"
  mainResult :: main_outcome
  readMacAvailable :: bool
  readMacResult :: "thrown + jsstring"

text \<open>The handler's \<open>catch\<close> block: one log line, then the three refs are set to null.\<close>

definition connect_failed :: "thrown \<Rightarrow> state \<Rightarrow> state" where
  "connect_failed error s =
     (addLog (ErrorMsg (errorMessage error)) s)
       \<lparr>transportRef := None, espLoaderRef := None, serialPortRef := None\<rparr>"

definition connect_readMac :: "connect_env \<Rightarrow> state \<Rightarrow> state \<times> effect list" where
  "connect_readMac env s =
     (if readMacAvailable env then
        (case readMacResult env of
           Inr macAddr \<Rightarrow> (addLog (MacAddress macAddr) s, [ReadMac])
         | Inl e \<Rightarrow> (s, [ReadMac]))
      else (s, []))"

definition connectToDevice :: "connect_env \<Rightarrow> state \<Rightarrow> state \<times> effect list" where
  "connectToDevice env s =
     (if \<not> serialAvailable env then (addLog SerialUnsupported s, [])
      else
        let s1 = addLog RequestingPort s in
        case portRequest env of
          Inl error \<Rightarrow> (connect_failed error s1, [RequestPort])
        | Inr port \<Rightarrow>
            let s1' = addLog ConnectingToDevice s1;
                s2 = s1'\<lparr>serialPortRef := Some port,
                         transportRef := Some (Transport port),
                         espLoaderRef := Some (ESPLoader (Transport port))\<rparr>;
                s3 = addLogs (map LoaderLine (mainLines env)) s2
            in
            (case mainResult env of
               OpenFailed error \<Rightarrow> (connect_failed error s3, [RequestPort, LoaderMain])
             | HandshakeFailed error \<Rightarrow>
                 (connect_failed error (s3\<lparr>portReadable := True\<rparr>), [RequestPort, LoaderMain])
             | ChipDetected chip \<Rightarrow>
                 let s3' = addLog (ConnectedTo chip) (s3\<lparr>portReadable := True\<rparr>);
                     s4 = s3'\<lparr>chipInfo := chip, isConnected := True\<rparr>;
                     (s5, fx) = connect_readMac env s4
                 in (s5, [RequestPort, LoaderMain] @ fx)))"

subsection \<open>Closing the link\<close>

record link_env =
  disconnectError :: "thrown option"
  closeError :: "thrown option"

text \<open>
  The two statements shared by \<open>disconnectDevice\<close> and by the failure path of
  \<open>flashFirmware\<close>:
  \<^verbatim>\<open>if (transportRef.current) await transportRef.current.disconnect();\<close>
  \<^verbatim>\<open>if (serialPortRef.current && serialPortRef.current.readable) await serialPortRef.current.close();\<close>
  The first component of the result is the value thrown, if any.
\<close>

definition closeLink :: "link_env \<Rightarrow> state \<Rightarrow> thrown option \<times> state \<times> effect list" where
  "closeLink env s =
     (let (r1, s1, fx1) =
            (case transportRef s of
               None \<Rightarrow> (None, s, [])
             | Some t \<Rightarrow>
                 (case disconnectError env of
                    Some e \<Rightarrow> (Some e, s, [TransportDisconnect])
                  | None \<Rightarrow> (None, s\<lparr>portReadable := False\<rparr>, [TransportDisconnect])))
      in
      case r1 of
        Some e \<Rightarrow> (Some e, s1, fx1)
      | None \<Rightarrow>
          if serialPortRef s1 \<noteq> None \<and> portReadable s1 then
            (case closeError env of
               Some e \<Rightarrow> (Some e, s1, fx1 @ [PortClose])
             | None \<Rightarrow> (None, s1\<lparr>portReadable := False\<rparr>, fx1 @ [PortClose]))
          else (None, s1, fx1))"

text \<open>What every teardown ends with: the refs are nulled, the flags reset.\<close>

definition release :: "state \<Rightarrow> state" where
  "release s =
     s\<lparr>transportRef := None, espLoaderRef := None, serialPortRef := None,
       isConnected := False, chipInfo := []\<rparr>"

subsection \<open>disconnectDevice\<close>

text \<open>
  \<open>try { closeLink; log } catch { log a warning } finally { release }\<close>. The first
  component is what the handler itself throws to its caller (\<open>None\<close>: it returns).
\<close>

definition disconnectDevice :: "link_env \<Rightarrow> state \<Rightarrow> thrown option \<times> state \<times> effect list" where
  "disconnectDevice env s =
     (let (r, s1, fx) = closeLink env s;
          s2 = (case r of
                  None \<Rightarrow> addLog Disconnected s1
                | Some error \<Rightarrow> addLog (DisconnectWarning (errorMessage error)) s1)
      in (None, release s2, fx))"

subsection \<open>flashFirmware\<close>

record flash_env =
  readError :: "thrown option"
  loaderLines :: "jsstring list"
  reports :: "(nat \<times> nat \<times> nat) list"
  writeError :: "thrown option"
  hasSetSignals :: bool
  signalError1 :: "thrown option"
  signalError2 :: "thrown option"
  link :: link_env

text \<open>
  \<open>readError\<close>: the rejection of \<open>firmwareFile.arrayBuffer()\<close>, if it rejects.
  \<open>reports\<close>: the calls \<open>reportProgress(fileIndex, written, total)\<close> the loader makes
  during \<open>writeFlash\<close>, in order; \<open>writeError\<close>: what \<open>writeFlash\<close> rejects with after
  them, if it rejects; \<open>loaderLines\<close>: what the loader writes to its terminal meanwhile.
  \<open>hasSetSignals\<close>: \<^verbatim>\<open>'setSignals' in serialPortRef.current\<close>.
\<close>

datatype flash_outcome = NotReady | InvalidAddress | FlashSucceeded | FlashFailed thrown

definition completionNotes :: "log_msg list" where
  "completionNotes = map CompletionNote [0 ..< 11]"

text \<open>From \<open>setIsFlashing(true)\<close> to the two log lines after \<open>setProgress(100)\<close>.\<close>

definition flash_write ::
  "flash_env \<Rightarrow> firmware_file \<Rightarrow> nat \<Rightarrow> state \<Rightarrow> thrown option \<times> state \<times> effect list" where
  "flash_write env file address s =
     (let s1 = addLog StartingFlash (s\<lparr>isFlashing := True, progress := Percent 0\<rparr>) in
      case readError env of
        Some e \<Rightarrow> (Some e, s1, [SetProgress (Percent 0), FileRead])
      | None \<Rightarrow>
          let arrayBuffer = fileContent file;
              s2 = addLog (FileSize (length arrayBuffer)) s1;
              s2' = addLog (WritingFirmware (flashAddress s)) s2;
              s3 = s2'\<lparr>progress := Percent 10\<rparr>;
              values = map (\<lambda>(fileIndex, written, total'). reportProgress fileIndex written total')
                         (reports env);
              s4 = addLogs (map LoaderLine (loaderLines env))
                     (s3\<lparr>progress := last (Percent 10 # values)\<rparr>);
              fx = [SetProgress (Percent 0), FileRead, SetProgress (Percent 10),
                    WriteFlash address arrayBuffer] @ map SetProgress values
          in
          (case writeError env of
             Some e \<Rightarrow> (Some e, s4, fx)
           | None \<Rightarrow>
               (None,
                addLog FinalizingFlash (addLog FlashCompletedOk (s4\<lparr>progress := Percent 100\<rparr>)),
                fx @ [SetProgress (Percent 100)])))"

text \<open>The reset pulse, in its own \<open>try\<close>: a failing \<open>setSignals\<close> ends it silently.\<close>

definition flash_signals :: "flash_env \<Rightarrow> state \<Rightarrow> state \<times> effect list" where
  "flash_signals env s =
     (if serialPortRef s \<noteq> None \<and> hasSetSignals env then
        let s1 = addLog SendingResetSignals s in
        case signalError1 env of
          Some e \<Rightarrow> (s1, [SetSignals False True])
        | None \<Rightarrow>
            (case signalError2 env of
               Some e \<Rightarrow> (s1, [SetSignals False True, Delay 50, SetSignals True False])
             | None \<Rightarrow>
                 (s1, [SetSignals False True, Delay 50, SetSignals True False, Delay 50]))
      else (s, []))"

text \<open>Closing the transport and the port after a successful write.\<close>

definition flash_close :: "flash_env \<Rightarrow> state \<Rightarrow> thrown option \<times> state \<times> effect list" where
  "flash_close env s =
     (let (r1, s1, fx1) =
            (case transportRef s of
               None \<Rightarrow> (None, s, [])
             | Some t \<Rightarrow>
                 let s' = addLog ClosingTransport s in
                 (case disconnectError (link env) of
                    Some e \<Rightarrow> (Some e, s', [TransportDisconnect])
                  | None \<Rightarrow>
                      (None, s'\<lparr>portReadable := False\<rparr>, [TransportDisconnect, Delay 100])))
      in
      case r1 of
        Some e \<Rightarrow> (Some e, s1, fx1)
      | None \<Rightarrow>
          (case serialPortRef s1 of
             None \<Rightarrow> (None, s1, fx1)
           | Some port \<Rightarrow>
               let s2 = addLog ClosingSerialPort s1 in
               if portReadable s2 then
                 (case closeError (link env) of
                    Some e \<Rightarrow> (Some e, s2, fx1 @ [PortClose])
                  | None \<Rightarrow> (None, s2\<lparr>portReadable := False\<rparr>, fx1 @ [PortClose]))
               else (None, s2, fx1)))"

text \<open>The finalisation after a successful write: its \<open>catch\<close> only logs.\<close>

definition flash_finalize :: "flash_env \<Rightarrow> state \<Rightarrow> state \<times> effect list" where
  "flash_finalize env s =
     (let (s1, fx1) = flash_signals env s;
          (r, s2, fx2) = flash_close env s1;
          s3 = (case r of None \<Rightarrow> s2 | Some cleanupError \<Rightarrow> addLog CleanupWarnings s2)
      in (s3, fx1 @ fx2))"

text \<open>The cleanup in the outer \<open>catch\<close>: its own \<open>catch\<close> writes to the browser console only.\<close>

definition flash_recover :: "flash_env \<Rightarrow> state \<Rightarrow> state \<times> effect list" where
  "flash_recover env s = (let (r, s1, fx) = closeLink (link env) s in (s1, fx))"

definition flashFirmware :: "flash_env \<Rightarrow> state \<Rightarrow> flash_outcome \<times> state \<times> effect list" where
  "flashFirmware env s =
     (case espLoaderRef s of
        None \<Rightarrow> (NotReady, addLog NoDeviceOrFirmware s, [])
      | Some esploader \<Rightarrow>
          (case firmwareFile s of
             None \<Rightarrow> (NotReady, addLog NoDeviceOrFirmware s, [])
           | Some file \<Rightarrow>
               let addrStr = trim (flashAddress s) in
               if \<not> isValidAddr addrStr then (InvalidAddress, addLog InvalidFlashAddress s, [])
               else
                 let address = parseInt16 addrStr;
                     (r, s1, fx1) = flash_write env file address s
                 in
                 (case r of
                    None \<Rightarrow>
                      let (s2, fx2) = flash_finalize env s1;
                          s3 = addLogs completionNotes (release s2)
                      in (FlashSucceeded, s3\<lparr>isFlashing := False\<rparr>, fx1 @ fx2)
                  | Some error \<Rightarrow>
                      let s2 = addLog (FlashError (errorMessage error)) s1;
                          (s3, fx3) = flash_recover env s2;
                          s4 = release s3
                      in (FlashFailed error, s4\<lparr>isFlashing := False\<rparr>, fx1 @ fx3))))"

text \<open>
  The flash button: \<^verbatim>\<open>onClick={flashFirmware}\<close> with
  \<^verbatim>\<open>disabled={!isConnected || isFlashing || !firmwareFile}\<close>. A disabled button
  delivers no click, so the handler does not run (\<open>None\<close>).
\<close>

definition flashButtonDisabled :: "state \<Rightarrow> bool" where
  "flashButtonDisabled s \<longleftrightarrow> \<not> isConnected s \<or> isFlashing s \<or> firmwareFile s = None"

definition clickFlashButton ::
  "flash_env \<Rightarrow> state \<Rightarrow> (flash_outcome \<times> state \<times> effect list) option" where
  "clickFlashButton env s =
     (if flashButtonDisabled s then None else Some (flashFirmware env s))"

section \<open>The firmware store (IndexedDB)\<close>

text \<open>
  The database \<open>DB_NAME\<close> with its one object store \<open>STORE_NAME\<close>, keyed by
  \<open>name\<close>. \<open>dbVersion = 0\<close>: the database does not exist. \<open>objectStore = None\<close>:
  the database has no such store. The store is a list of records with distinct keys.
\<close>

record firmware_record =
  recName :: jsstring
  recData :: bytes
  recTimestamp :: nat
  recSize :: nat

record medium =
  dbVersion :: nat
  objectStore :: "(jsstring \<times> firmware_record) list option"

definition DB_VERSION :: nat where
  "DB_VERSION = 2"

definition versionError :: thrown where
  "versionError = Error (js ''VersionError'')"

definition notFoundError :: thrown where
  "notFoundError = Error (js ''NotFoundError'')"

text \<open>
  \<open>onupgradeneeded\<close>: a store left by a schema older than 2 is deleted, and the store
  is created when it is missing.
\<close>

definition upgrade :: "medium \<Rightarrow> medium" where
  "upgrade m =
     (let oldVersion = dbVersion m;
          kept = (if oldVersion < 2 \<and> objectStore m \<noteq> None then None else objectStore m);
          created = (case kept of None \<Rightarrow> Some [] | Some records \<Rightarrow> Some records)
      in \<lparr>dbVersion = DB_VERSION, objectStore = created\<rparr>)"

text \<open>
  \<open>openDB\<close>: \<open>indexedDB.open(DB_NAME, DB_VERSION)\<close>. The argument is the fault the
  browser answers the request with, if any; a database newer than \<open>DB_VERSION\<close> is
  always refused.
\<close>

definition openDB :: "thrown option \<Rightarrow> medium \<Rightarrow> thrown + medium" where
  "openDB fault m =
     (case fault of
        Some e \<Rightarrow> Inl e
      | None \<Rightarrow>
          if dbVersion m < DB_VERSION then Inr (upgrade m)
          else if DB_VERSION < dbVersion m then Inl versionError
          else Inr m)"

text \<open>
  The promise both attempts of \<open>saveFirmwareToDB\<close> build: open a transaction on the
  store (which throws when the store is missing), build the record with
  \<open>size: data.byteLength\<close>, and \<open>put\<close> it.
\<close>

definition putRecord ::
  "thrown option \<Rightarrow> nat \<Rightarrow> jsstring \<Rightarrow> bytes \<Rightarrow> medium \<Rightarrow> thrown + medium" where
  "putRecord fault now name data' db =
     (case objectStore db of
        None \<Rightarrow> Inl notFoundError
      | Some records \<Rightarrow>
          let firmware = \<lparr>recName = name, recData = data', recTimestamp = now,
                           recSize = length data'\<rparr>
          in (case fault of
                Some e \<Rightarrow> Inl e
              | None \<Rightarrow> Inr (db\<lparr>objectStore := Some (AList.update name firmware records)\<rparr>)))"

text \<open>
  \<open>resetDatabase\<close>: \<open>indexedDB.deleteDatabase(DB_NAME)\<close>. \<open>onblocked\<close> resolves the
  promise although the database has not been deleted at that moment.
\<close>

datatype reset_outcome = Deleted | DeletionBlocked | DeletionFailed thrown

definition resetDatabase :: "reset_outcome \<Rightarrow> medium \<Rightarrow> thrown + medium" where
  "resetDatabase outcome m =
     (case outcome of
        Deleted \<Rightarrow> Inr \<lparr>dbVersion = 0, objectStore = None\<rparr>
      | DeletionBlocked \<Rightarrow> Inr m
      | DeletionFailed e \<Rightarrow> Inl e)"

record save_env =
  openFault1 :: "thrown option"
  now1 :: nat
  putFault1 :: "thrown option"
  saveReset :: reset_outcome
  openFault2 :: "thrown option"
  now2 :: nat
  putFault2 :: "thrown option"

definition storageUnavailable :: thrown where
  "storageUnavailable =
     Error (js ''Failed to save firmware to storage. Please clear your browser cache and try again.'')"

text \<open>
  \<open>saveFirmwareToDB\<close>. In both \<open>try\<close> blocks only \<open>openDB\<close> (and, in the second,
  \<open>resetDatabase\<close>) is awaited; the promise that performs the \<open>put\<close> is returned
  without \<open>await\<close>, so the function has left the \<open>try\<close> block when that promise
  settles and its rejection goes to the caller as it is.
  The first component of the result is what the returned promise rejects with.
\<close>

definition saveFirmwareToDB ::
  "save_env \<Rightarrow> jsstring \<Rightarrow> bytes \<Rightarrow> medium \<Rightarrow> thrown option \<times> medium \<times> effect list" where
  "saveFirmwareToDB env name data' m =
     (case openDB (openFault1 env) m of
        Inr db \<Rightarrow>
          (case putRecord (putFault1 env) (now1 env) name data' db of
             Inl e \<Rightarrow> (Some e, db, [DbOpen, DbPut name])
           | Inr m' \<Rightarrow> (None, m', [DbOpen, DbPut name]))
      | Inl error \<Rightarrow>
          (case resetDatabase (saveReset env) m of
             Inl retryError \<Rightarrow> (Some storageUnavailable, m, [DbOpen, DbDeleteDatabase])
           | Inr m1 \<Rightarrow>
               (case openDB (openFault2 env) m1 of
                  Inl retryError \<Rightarrow>
                    (Some storageUnavailable, m1, [DbOpen, DbDeleteDatabase, DbOpen])
                | Inr db \<Rightarrow>
                    (case putRecord (putFault2 env) (now2 env) name data' db of
                       Inl e \<Rightarrow> (Some e, db, [DbOpen, DbDeleteDatabase, DbOpen, DbPut name])
                     | Inr m' \<Rightarrow>
                         (None, m', [DbOpen, DbDeleteDatabase, DbOpen, DbPut name])))))"

record request_env =
  openFault :: "thrown option"
  requestFault :: "thrown option"


text \<open>\<open>getAllFirmwaresFromDB\<close>: \<open>getAll()\<close> answers in key order; the bytes are left out.\<close>

definition getAllFirmwaresFromDB ::
  "request_env \<Rightarrow> medium \<Rightarrow> (thrown + firmware_info list) \<times> medium \<times> effect list" where
  "getAllFirmwaresFromDB env m =
     (case openDB (openFault env) m of
        Inl e \<Rightarrow> (Inl e, m, [DbOpen])
      | Inr db \<Rightarrow>
          (case objectStore db of
             None \<Rightarrow> (Inl notFoundError, db, [DbOpen])
           | Some records \<Rightarrow>
               (case requestFault env of
                  Some e \<Rightarrow> (Inl e, db, [DbOpen, DbGetAll])
                | None \<Rightarrow>
                    (Inr (map (\<lambda>item. \<lparr>infoName = recName item, infoSize = recSize item,
                                        infoTimestamp = recTimestamp item\<rparr>)
                            (map snd (sort_key fst records))),
                     db, [DbOpen, DbGetAll]))))"

definition deleteFirmwareFromDB ::
  "request_env \<Rightarrow> jsstring \<Rightarrow> medium \<Rightarrow> thrown option \<times> medium \<times> effect list" where
  "deleteFirmwareFromDB env name m =
     (case openDB (openFault env) m of
        Inl e \<Rightarrow> (Some e, m, [DbOpen])
      | Inr db \<Rightarrow>
          (case objectStore db of
             None \<Rightarrow> (Some notFoundError, db, [DbOpen])
           | Some records \<Rightarrow>
               (case requestFault env of
                  Some e \<Rightarrow> (Some e, db, [DbOpen, DbDelete name])
                | None \<Rightarrow>
                    (None, db\<lparr>objectStore := Some (AList.delete name records)\<rparr>,
                     [DbOpen, DbDelete name]))))"

section \<open>The cache handlers of the page\<close>

text \<open>\<open>loadLocalFirmwares\<close>: a failure is written to the browser console and nothing changes.\<close>

definition loadLocalFirmwares ::
  "request_env \<Rightarrow> state \<Rightarrow> medium \<Rightarrow> state \<times> medium \<times> effect list" where
  "loadLocalFirmwares env s m =
     (case getAllFirmwaresFromDB env m of
        (Inr firmwares, m', fx) \<Rightarrow> (s\<lparr>localFirmwares := firmwares\<rparr>, m', fx)
      | (Inl error, m', fx) \<Rightarrow> (s, m', fx))"

text \<open>How a handler that catches its own errors ended.\<close>

datatype handler_outcome = Done | Caught thrown | Declined

record delete_env =
  deleteRequest :: request_env
  deleteReload :: request_env

definition deleteFirmwareFromStorage ::
  "delete_env \<Rightarrow> jsstring \<Rightarrow> state \<Rightarrow> medium
     \<Rightarrow> handler_outcome \<times> state \<times> medium \<times> effect list" where
  "deleteFirmwareFromStorage env name s m =
     (case deleteFirmwareFromDB (deleteRequest env) name m of
        (Some error, m1, fx1) \<Rightarrow>
          (Caught error, addLog (DeleteError (errorMessage error)) s, m1, fx1)
      | (None, m1, fx1) \<Rightarrow>
          let (s1, m2, fx2) = loadLocalFirmwares (deleteReload env) s m1;
              s2 = addLog (DeletedFromStorage name) s1;
              s3 = (case firmwareFile s of
                      Some file \<Rightarrow> if fileName file = name then s2\<lparr>firmwareFile := None\<rparr> else s2
                    | None \<Rightarrow> s2)
          in (Done, s3, m2, fx1 @ fx2))"

record clear_env =
  confirmed :: bool
  clearReset :: reset_outcome
  clearReload :: request_env

definition clearAllFirmwares ::
  "clear_env \<Rightarrow> state \<Rightarrow> medium \<Rightarrow> handler_outcome \<times> state \<times> medium \<times> effect list" where
  "clearAllFirmwares env s m =
     (if confirmed env then
        let s1 = addLog ClearingAll s in
        (case resetDatabase (clearReset env) m of
           Inl error \<Rightarrow>
             (Caught error, addLog (ClearError (errorMessage error)) s1, m,
              [Confirm, DbDeleteDatabase])
         | Inr m1 \<Rightarrow>
             let (s2, m2, fx2) = loadLocalFirmwares (clearReload env) s1 m1;
                 s3 = s2\<lparr>firmwareFile := None\<rparr>
             in (Done, addLog AllCleared s3, m2, [Confirm, DbDeleteDatabase] @ fx2))
      else (Declined, s, m, [Confirm]))"

section \<open>Fetching the release feed\<close>

text \<open>
  \<open>GithubRelease\<close>, and what one \<open>fetch\<close> can end with: it throws (network error,
  timeout), or it answers with \<open>response.ok\<close> and a body. Of the body,
  \<open>response.json()\<close> either rejects, or yields a falsy value (\<open>null\<close>, \<open>false\<close>, \<open>0\<close> or
  the empty string), or yields a release; \<open>releasesData\<close> is declared
  \<open>GithubRelease | null\<close>, and a truthy value is taken to have the declared shape.
\<close>

record github_release =
  assets :: "github_asset list option"

datatype body = Unparseable thrown | Falsy | Release github_release

datatype fetch_result = NetworkError thrown | Response bool body

definition corsProxies :: "source list" where
  "corsProxies = [AllOrigins, CorsProxy]"

text \<open>
  The first \<open>try\<close>: the direct call to the GitHub API. After a success status the
  parsed value is assigned and the success line is logged, whatever the value is.
\<close>

definition fetch_direct ::
  "(source \<Rightarrow> fetch_result) \<Rightarrow> state \<Rightarrow> github_release option \<times> state" where
  "fetch_direct respond s =
     (let s1 = addLog TryingGithubApi s in
      case respond GithubApi of
        NetworkError e \<Rightarrow> (None, s1)
      | Response ok b \<Rightarrow>
          if ok then
            (case b of
               Unparseable e \<Rightarrow> (None, s1)
             | Falsy \<Rightarrow> (None, addLog FetchedFromApi s1)
             | Release releasesData \<Rightarrow> (Some releasesData, addLog FetchedFromApi s1))
          else (None, s1))"

text \<open>
  The loop \<open>for (const proxy of corsProxies)\<close>. After a success status whose body
  parses, the value is assigned, the success line is logged and \<open>break\<close> leaves the
  loop, also when the value is falsy: then no release is held and the proxies that
  remain are not tried.
\<close>

fun fetch_proxies ::
  "(source \<Rightarrow> fetch_result) \<Rightarrow> source list \<Rightarrow> state
     \<Rightarrow> github_release option \<times> state \<times> effect list" where
  "fetch_proxies respond [] s = (None, s, [])"
| "fetch_proxies respond (proxy # rest) s =
     (let s1 = addLog (TryingProxy proxy) s in
      case respond proxy of
        NetworkError e \<Rightarrow>
          (let (r, s2, fx) = fetch_proxies respond rest s1 in (r, s2, Fetch proxy # fx))
      | Response ok b \<Rightarrow>
          if ok then
            (case b of
               Unparseable e \<Rightarrow>
                 (let (r, s2, fx) = fetch_proxies respond rest s1 in (r, s2, Fetch proxy # fx))
             | Falsy \<Rightarrow> (None, addLog (FetchedVia proxy) s1, [Fetch proxy])
             | Release releasesData \<Rightarrow>
                 (Some releasesData, addLog (FetchedVia proxy) s1, [Fetch proxy]))
          else (let (r, s2, fx) = fetch_proxies respond rest s1 in (r, s2, Fetch proxy # fx)))"

definition toFirmwares :: "github_asset list \<Rightarrow> github_firmware list" where
  "toFirmwares as =
     map (\<lambda>asset. \<lparr>fwName = assetName asset, fwUrl = browser_download_url asset\<rparr>)
       (filter (\<lambda>asset. endsWith (assetName asset) (js ''.bin'')) as)"

datatype fetch_outcome = Candidates "github_firmware list" | FetchUnavailable

definition fetchFailedNotes :: "log_msg list" where
  "fetchFailedNotes =
     FetchError (js ''Failed to fetch releases. Please check your internet connection or try again later.'')
       # map ManualHint [0 ..< 4]"

definition fetchGithubReleases ::
  "(source \<Rightarrow> fetch_result) \<Rightarrow> state \<Rightarrow> fetch_outcome \<times> state \<times> effect list" where
  "fetchGithubReleases respond s =
     (let s0 = addLog FetchingFromGithub (s\<lparr>isFetchingGithub := True\<rparr>);
          (direct, s1) = fetch_direct respond s0;
          (releasesData, s2, fx) =
             (case direct of
                Some r \<Rightarrow> (Some r, s1, [])
              | None \<Rightarrow> fetch_proxies respond corsProxies s1)
      in
      (case releasesData of
         None \<Rightarrow>
           let s3 = addLogs fetchFailedNotes s2
           in (FetchUnavailable, s3\<lparr>isFetchingGithub := False\<rparr>, Fetch GithubApi # fx)
       | Some release' \<Rightarrow>
           let assets' = (case assets release' of Some as \<Rightarrow> as | None \<Rightarrow> []);
               firmwares = toFirmwares assets'
           in
           if firmwares = [] then
             let s3 = addLog NoBinFiles s2
             in (Candidates firmwares, s3\<lparr>isFetchingGithub := False\<rparr>, Fetch GithubApi # fx)
           else
             let s3 = addLog (FoundFirmwares (length firmwares))
                        (s2\<lparr>githubFirmwares := firmwares, showGithubDialog := True\<rparr>)
             in (Candidates firmwares, s3\<lparr>isFetchingGithub := False\<rparr>, Fetch GithubApi # fx)))"

section \<open>Notions used to state the properties\<close>

text \<open>The values reported by the loader's callbacks during one write, in order.\<close>

definition reported :: "flash_env \<Rightarrow> progress_value list" where
  "reported env =
     map (\<lambda>(fileIndex, written, total'). reportProgress fileIndex written total') (reports env)"

text \<open>
  An attempt of the fallback chain yields a release when it answers with a success
  status and a body that parses into one; it has a success status when \<open>response.ok\<close>
  holds.
\<close>

definition succeeded :: "fetch_result \<Rightarrow> github_release option" where
  "succeeded r =
     (case r of
        Response ok b \<Rightarrow>
          (if ok then (case b of Release rel \<Rightarrow> Some rel | Unparseable e \<Rightarrow> None | Falsy \<Rightarrow> None)
           else None)
      | NetworkError e \<Rightarrow> None)"

definition successStatus :: "fetch_result \<Rightarrow> bool" where
  "successStatus r = (case r of Response ok b \<Rightarrow> ok | NetworkError e \<Rightarrow> False)"

definition fetchOrder :: "source list" where
  "fetchOrder = GithubApi # corsProxies"

definition candidatesOf :: "github_release \<Rightarrow> github_firmware list" where
  "candidatesOf rel = toFirmwares (case assets rel of Some as \<Rightarrow> as | None \<Rightarrow> [])"

section \<open>Sample inputs\<close>

definition initialState :: state where
  "initialState =
     \<lparr>isConnected = False, isFlashing = False, progress = Percent 0, logs = [],
      firmwareFile = None, chipInfo = [], flashAddress = js ''0x10000'',
      showGithubDialog = False, githubFirmwares = [], isFetchingGithub = False,
      localFirmwares = [], transportRef = None, espLoaderRef = None, serialPortRef = None,
      portReadable = False\<rparr>"

definition appBin :: firmware_file where
  "appBin = \<lparr>fileName = js ''app.bin'', fileContent = [0xE9, 0x02, 0x00, 0x20]\<rparr>"

text \<open>Connected to an ESP32-C6 on port 1, with \<open>app.bin\<close> selected.\<close>

definition readyState :: state where
  "readyState =
     initialState
       \<lparr>isConnected := True, chipInfo := js ''ESP32-C6'', firmwareFile := Some appBin,
        serialPortRef := Some (SerialPort 1), transportRef := Some (Transport (SerialPort 1)),
        espLoaderRef := Some (ESPLoader (Transport (SerialPort 1))), portReadable := True\<rparr>"

text \<open>The same page while a write is in flight, at 55 percent.\<close>

definition busyState :: state where
  "busyState = readyState\<lparr>isFlashing := True, progress := Percent 55\<rparr>"

definition quietLink :: link_env where
  "quietLink = \<lparr>disconnectError = None, closeError = None\<rparr>"

definition portBusy :: link_env where
  "portBusy = \<lparr>disconnectError = Some (Error (js ''The port is busy'')), closeError = None\<rparr>"

text \<open>A write of four bytes reported in two steps, with nothing failing.\<close>

definition quietFlash :: flash_env where
  "quietFlash =
     \<lparr>readError = None, loaderLines = [], reports = [(0, 2, 4), (0, 4, 4)], writeError = None,
      hasSetSignals = True, signalError1 = None, signalError2 = None, link = quietLink\<rparr>"

text \<open>Two callbacks whose totals differ, and one callback of an empty write.\<close>

definition varyingTotal :: flash_env where
  "varyingTotal = quietFlash\<lparr>reports := [(0, 5, 5), (0, 6, 100)]\<rparr>"

definition zeroTotal :: flash_env where
  "zeroTotal = quietFlash\<lparr>reports := [(0, 0, 0)]\<rparr>"

definition writeFails :: flash_env where
  "writeFails = quietFlash\<lparr>reports := [(0, 2, 4)], writeError := Some (Error (js ''Timeout''))\<rparr>"

definition handshakeTimeout :: connect_env where
  "handshakeTimeout =
     \<lparr>serialAvailable = True, portRequest = Inr (SerialPort 1), mainLines = [],
      mainResult = HandshakeFailed (Error (js ''Failed to connect with the device'')),
      readMacAvailable = False, readMacResult = Inl NonError\<rparr>"

definition emptyStore :: medium where
  "emptyStore = \<lparr>dbVersion = 2, objectStore = Some []\<rparr>"

definition appRecord :: firmware_record where
  "appRecord = \<lparr>recName = js ''app.bin'', recData = [0xE9, 0x02, 0x00, 0x20],
                 recTimestamp = 1001, recSize = 4\<rparr>"

definition storedApp :: medium where
  "storedApp = \<lparr>dbVersion = 2, objectStore = Some [(js ''app.bin'', appRecord)]\<rparr>"

definition quotaExceeded :: thrown where
  "quotaExceeded = Error (js ''QuotaExceededError'')"

text \<open>The database opens, the write request is refused.\<close>

definition putRejected :: save_env where
  "putRejected =
     \<lparr>openFault1 = None, now1 = 1000, putFault1 = Some quotaExceeded, saveReset = Deleted,
      openFault2 = None, now2 = 1001, putFault2 = None\<rparr>"

text \<open>The database does not open; after the reset it does, and the write goes through \<dots>\<close>

definition healed :: save_env where
  "healed =
     \<lparr>openFault1 = Some (Error (js ''UnknownError'')), now1 = 1000, putFault1 = None,
      saveReset = Deleted, openFault2 = None, now2 = 1001, putFault2 = None\<rparr>"

text \<open>\<dots> or the write request of the retry is refused.\<close>

definition retryRejected :: save_env where
  "retryRejected = healed\<lparr>putFault2 := Some quotaExceeded\<rparr>"

definition noFaults :: request_env where
  "noFaults = \<lparr>openFault = None, requestFault = None\<rparr>"

definition quietDelete :: delete_env where
  "quietDelete = \<lparr>deleteRequest = noFaults, deleteReload = noFaults\<rparr>"

definition confirmedClear :: clear_env where
  "confirmedClear = \<lparr>confirmed = True, clearReset = Deleted, clearReload = noFaults\<rparr>"

definition sampleRelease :: github_release where
  "sampleRelease =
     \<lparr>assets = Some [\<lparr>assetName = js ''app.bin'', browser_download_url = js ''https://h/app.bin''\<rparr>,
                     \<lparr>assetName = js ''notes.txt'', browser_download_url = js ''https://h/notes.txt''\<rparr>]\<rparr>"

text \<open>The direct call and the first proxy fail, the second proxy answers.\<close>

definition secondFallback :: "source \<Rightarrow> fetch_result" where
  "secondFallback src =
     (case src of
        GithubApi \<Rightarrow> NetworkError NonError
      | AllOrigins \<Rightarrow> Response False (Unparseable NonError)
      | CorsProxy \<Rightarrow> Response True (Release sampleRelease))"

text \<open>The direct call fails, the first proxy answers 200 with the JSON value \<open>null\<close>.\<close>

definition nullFromProxy :: "source \<Rightarrow> fetch_result" where
  "nullFromProxy src =
     (case src of
        GithubApi \<Rightarrow> NetworkError NonError
      | AllOrigins \<Rightarrow> Response True Falsy
      | CorsProxy \<Rightarrow> Response True (Release sampleRelease))"

text \<open>The direct call answers 200 with a page that is not JSON; the first proxy answers.\<close>

definition htmlFromApi :: "source \<Rightarrow> fetch_result" where
  "htmlFromApi src =
     (case src of
        GithubApi \<Rightarrow> Response True (Unparseable (Error (js ''Unexpected token'')))
      | AllOrigins \<Rightarrow> Response True (Release sampleRelease)
      | CorsProxy \<Rightarrow> NetworkError NonError)"

section \<open>Facts about the flashing session\<close>

subsection \<open>Published progress values\<close>

lemma published_Nil [simp]: "published [] = []"
  by (simp add: published_def)

lemma published_append [simp]: "published (xs @ ys) = published xs @ published ys"
  by (simp add: published_def)

lemma published_Cons:
  "published (e # fx) = (case e of SetProgress v \<Rightarrow> [v] | _ \<Rightarrow> []) @ published fx"
  by (simp add: published_def)

lemma published_SetProgress [simp]: "published (map SetProgress vs) = vs"
  by (induction vs) (simp_all add: published_Cons)

lemma published_SetProgress_comp [simp]: "published (map (SetProgress \<circ> f) xs) = map f xs"
  using published_SetProgress [of "map f xs"] by simp

lemma published_closeLink [simp]: "published (snd (snd (closeLink env s))) = []"
  by (simp add: closeLink_def published_Cons Let_def split: option.splits prod.splits)

lemma published_recover [simp]: "published (snd (flash_recover env s)) = []"
proof -
  have "snd (flash_recover env s) = snd (snd (closeLink (link env) s))"
    by (simp add: flash_recover_def split: prod.splits)
  then show ?thesis by simp
qed

lemma published_signals [simp]: "published (snd (flash_signals env s)) = []"
  by (simp add: flash_signals_def published_Cons Let_def split: option.splits)

lemma published_close [simp]: "published (snd (snd (flash_close env s))) = []"
  by (simp add: flash_close_def published_Cons Let_def split: option.splits prod.splits)

lemma published_finalize [simp]: "published (snd (flash_finalize env s)) = []"
proof -
  obtain s1 fx1 where a: "flash_signals env s = (s1, fx1)" by (cases "flash_signals env s")
  obtain r s2 fx2 where b: "flash_close env s1 = (r, s2, fx2)" by (cases "flash_close env s1")
  have "published fx1 = []" using published_signals [of env s] a by simp
  moreover have "published fx2 = []" using published_close [of env s1] b by simp
  ultimately show ?thesis by (simp add: flash_finalize_def a b)
qed

lemma published_write:
  "published (snd (snd (flash_write env file address s))) =
     (case readError env of
        Some e \<Rightarrow> [Percent 0]
      | None \<Rightarrow> [Percent 0, Percent 10] @ reported env
                  @ (case writeError env of None \<Rightarrow> [Percent 100] | Some e \<Rightarrow> []))"
  by (simp add: flash_write_def reported_def published_Cons Let_def split: option.splits)

lemma write_outcome:
  "fst (flash_write env file address s) =
     (case readError env of Some e \<Rightarrow> Some e | None \<Rightarrow> writeError env)"
  by (simp add: flash_write_def Let_def split: option.splits)

lemma flash_succeeds:
  assumes "espLoaderRef s = Some l" and "firmwareFile s = Some f"
    and "isValidAddr (trim (flashAddress s))"
    and "readError env = None" and "writeError env = None"
  shows "fst (flashFirmware env s) = FlashSucceeded"
proof -
  obtain r s1 fx1 where w: "flash_write env f (parseInt16 (trim (flashAddress s))) s = (r, s1, fx1)"
    by (cases "flash_write env f (parseInt16 (trim (flashAddress s))) s")
  from write_outcome [of env f "parseInt16 (trim (flashAddress s))" s] w assms(4,5)
  have "r = None" by simp
  with assms(1-3) w show ?thesis
    by (simp add: flashFirmware_def Let_def split: prod.splits)
qed

lemma published_flash:
  "published (snd (snd (flashFirmware env s))) =
     (if espLoaderRef s \<noteq> None \<and> firmwareFile s \<noteq> None \<and> isValidAddr (trim (flashAddress s))
      then published (snd (snd (flash_write env (the (firmwareFile s))
              (parseInt16 (trim (flashAddress s))) s)))
      else [])"
proof (cases "espLoaderRef s \<noteq> None \<and> firmwareFile s \<noteq> None \<and> isValidAddr (trim (flashAddress s))")
  case False
  then show ?thesis
    by (auto simp: flashFirmware_def Let_def split: option.splits)
next
  case True
  then obtain l f where lf: "espLoaderRef s = Some l" "firmwareFile s = Some f"
    and ok: "isValidAddr (trim (flashAddress s))" by auto
  obtain r s1 fx1 where w: "flash_write env f (parseInt16 (trim (flashAddress s))) s = (r, s1, fx1)"
    by (cases "flash_write env f (parseInt16 (trim (flashAddress s))) s")
  show ?thesis
  proof (cases r)
    case None
    obtain s2 fx2 where f: "flash_finalize env s1 = (s2, fx2)" by (cases "flash_finalize env s1")
    have "published fx2 = []" using published_finalize [of env s1] f by simp
    then show ?thesis using lf ok w None f
      by (simp add: flashFirmware_def Let_def)
  next
    case (Some e)
    obtain s3 fx3 where f: "flash_recover env (addLog (FlashError (errorMessage e)) s1) = (s3, fx3)"
      by (cases "flash_recover env (addLog (FlashError (errorMessage e)) s1)")
    have "published fx3 = []"
      using published_recover [of env "addLog (FlashError (errorMessage e)) s1"] f by simp
    then show ?thesis using lf ok w Some f
      by (simp add: flashFirmware_def Let_def)
  qed
qed

subsection \<open>The progress formula\<close>

lemma nondecreasing_Percent: "nondecreasing (map Percent ps) \<longleftrightarrow> sorted ps"
proof (induction ps rule: induct_list012)
  case (3 p q ps)
  then show ?case by (auto intro: order_trans)
qed simp_all

lemma reportProgress_Percent:
  "0 < t \<Longrightarrow>
     reportProgress i w t = Percent (js_round (10 + (of_nat w / of_nat t) * 100 * (9 / 10)))"
  by (simp add: reportProgress_def Let_def)

lemma js_round_mono: "x \<le> y \<Longrightarrow> js_round x \<le> js_round y"
  by (simp add: js_round_def floor_mono)

lemma percent_mono:
  fixes t :: nat
  assumes "0 < t" "w1 \<le> w2"
  shows "js_round (10 + (of_nat w1 / of_nat t) * 100 * (9 / 10))
       \<le> js_round (10 + (of_nat w2 / of_nat t) * 100 * (9 / 10))"
proof (rule js_round_mono)
  have "(of_nat w1 :: rat) / of_nat t \<le> of_nat w2 / of_nat t"
    using assms by (simp add: divide_right_mono)
  then show "10 + (of_nat w1 :: rat) / of_nat t * 100 * (9 / 10)
           \<le> 10 + of_nat w2 / of_nat t * 100 * (9 / 10)"
    by simp
qed

lemma percent_lower:
  fixes t :: nat
  shows "10 \<le> js_round (10 + (of_nat w / of_nat t) * 100 * (9 / 10))"
proof -
  define x :: rat where "x = of_nat w / of_nat t"
  have "0 \<le> x" by (simp add: x_def)
  then have "of_int 10 \<le> 10 + x * 100 * (9 / 10) + 1 / 2" by simp
  then have "10 \<le> \<lfloor>10 + x * 100 * (9 / 10) + 1 / 2\<rfloor>" by (simp only: le_floor_iff)
  then show ?thesis by (simp add: js_round_def x_def)
qed

lemma percent_upper:
  fixes t :: nat
  assumes "0 < t" "w \<le> t"
  shows "js_round (10 + (of_nat w / of_nat t) * 100 * (9 / 10)) \<le> 100"
proof -
  define x :: rat where "x = of_nat w / of_nat t"
  have "x \<le> 1" using assms by (simp add: x_def)
  then have "10 + x * 100 * (9 / 10) + 1 / 2 < of_int 100 + 1" by simp
  then have "\<lfloor>10 + x * 100 * (9 / 10) + 1 / 2\<rfloor> \<le> 100" by (simp only: floor_le_iff)
  then show ?thesis by (simp add: js_round_def x_def)
qed

lemma reported_sorted:
  assumes "0 < t"
    and "\<forall>(i, w, t') \<in> set rs. t' = t \<and> w \<le> t"
    and "sorted (map (\<lambda>(i, w, t'). w) rs)"
  shows "\<exists>ps. map (\<lambda>(i, w, t'). reportProgress i w t') rs = map Percent ps
            \<and> sorted ps \<and> (\<forall>p \<in> set ps. 10 \<le> p \<and> p \<le> 100)"
  using assms(2,3)
proof (induction rs)
  case Nil
  then show ?case by simp
next
  case (Cons r rs)
  obtain i w t' where r: "r = (i, w, t')" by (cases r)
  from Cons.prems have t': "t' = t" and wt: "w \<le> t" by (auto simp: r)
  from Cons obtain ps where ps: "map (\<lambda>(i, w, t'). reportProgress i w t') rs = map Percent ps"
    "sorted ps" "\<forall>p \<in> set ps. 10 \<le> p \<and> p \<le> 100"
    by auto
  let ?p = "js_round (10 + (of_nat w / of_nat t) * 100 * (9 / 10))"
  have head: "reportProgress i w t' = Percent ?p"
    using assms(1) t' by (simp add: reportProgress_Percent)
  have le: "\<forall>q \<in> set ps. ?p \<le> q"
  proof
    fix q assume "q \<in> set ps"
    then have "Percent q \<in> set (map (\<lambda>(i, w, t'). reportProgress i w t') rs)"
      using ps(1) by simp
    then obtain i2 w2 t2 where in_rs: "(i2, w2, t2) \<in> set rs"
      and q: "Percent q = reportProgress i2 w2 t2"
      by auto
    from in_rs Cons.prems(1) have t2: "t2 = t" by auto
    from in_rs Cons.prems(2) have "w \<le> w2" by (auto simp: r)
    then have "?p \<le> js_round (10 + (of_nat w2 / of_nat t) * 100 * (9 / 10))"
      using assms(1) by (rule percent_mono [rotated])
    moreover have "q = js_round (10 + (of_nat w2 / of_nat t) * 100 * (9 / 10))"
      using q t2 assms(1) by (simp add: reportProgress_Percent)
    ultimately show "?p \<le> q" by simp
  qed
  have "map (\<lambda>(i, w, t'). reportProgress i w t') (r # rs) = map Percent (?p # ps)"
    using head ps(1) by (simp add: r)
  moreover have "sorted (?p # ps)" using le ps(2) by simp
  moreover have "\<forall>p \<in> set (?p # ps). 10 \<le> p \<and> p \<le> 100"
    using ps(3) percent_lower [of w t] percent_upper [OF assms(1) wt] by simp
  ultimately show ?case by blast
qed

subsection \<open>Evaluating the samples\<close>

lemma sample_trim: "trim (js ''0x10000'') = js ''0x10000''"
  by (simp add: js_def trim_def isWhiteSpace_def)

lemma sample_address: "trim (flashAddress readyState) = js ''0x10000''"
  by (simp add: readyState_def initialState_def sample_trim)

lemma sample_address_valid: "isValidAddr (js ''0x10000'')"
  by (simp add: js_def isValidAddr_def isHexDigit_def)

lemma sample_parse: "parseInt16 (js ''0x10000'') = 65536"
  by (simp add: js_def parseInt16_def hexValue_def)

lemma sample_reports:
  "reportProgress 0 2 4 = Percent 55" "reportProgress 0 4 4 = Percent 100"
  by (simp_all add: reportProgress_def js_round_def floor_eq_iff Let_def)

lemma closeLink_logs: "logs (fst (snd (closeLink env s))) = logs s"
  by (simp add: closeLink_def Let_def split: option.splits prod.splits)

lemma sample_flash:
  "flashFirmware quietFlash readyState =
     (FlashSucceeded,
      initialState
        \<lparr>progress := Percent 100, firmwareFile := Some appBin,
         logs := [StartingFlash, FileSize 4, WritingFirmware (js ''0x10000''), FlashCompletedOk,
                  FinalizingFlash, SendingResetSignals, ClosingTransport, ClosingSerialPort]
                 @ completionNotes\<rparr>,
      [SetProgress (Percent 0), FileRead, SetProgress (Percent 10),
       WriteFlash 65536 [0xE9, 0x02, 0x00, 0x20], SetProgress (Percent 55),
       SetProgress (Percent 100), SetProgress (Percent 100),
       SetSignals False True, Delay 50, SetSignals True False, Delay 50,
       TransportDisconnect, Delay 100])"
  by (simp add: flashFirmware_def sample_trim sample_address_valid sample_parse
      flash_write_def flash_finalize_def flash_signals_def flash_close_def release_def
      sample_reports quietFlash_def quietLink_def readyState_def initialState_def appBin_def
      addLog_def addLogs_def Let_def)

section \<open>The properties\<close>

text \<open>
  C1, as the code has it. A call of \<open>flashFirmware\<close> that passes its guards (a loader
  is bound, a firmware is selected, the trimmed address is valid) ends as a success or
  as a failure, and when it returns nothing is bound to the session: the transport,
  loader and port refs are null, the connected flag and the flashing flag are false
  and the chip identity is empty. (A call stopped by a guard leaves the session as it
  was, see C3.)
\<close>

theorem flash_teardown:
  assumes "espLoaderRef s = Some esploader" and "firmwareFile s = Some file"
    and "isValidAddr (trim (flashAddress s))"
  shows "(fst (flashFirmware env s) = FlashSucceeded
            \<or> (\<exists>e. fst (flashFirmware env s) = FlashFailed e))
       \<and> transportRef (fst (snd (flashFirmware env s))) = None
       \<and> espLoaderRef (fst (snd (flashFirmware env s))) = None
       \<and> serialPortRef (fst (snd (flashFirmware env s))) = None
       \<and> \<not> isConnected (fst (snd (flashFirmware env s)))
       \<and> chipInfo (fst (snd (flashFirmware env s))) = []
       \<and> \<not> isFlashing (fst (snd (flashFirmware env s)))"
  using assms
  by (auto simp: flashFirmware_def Let_def release_def addLogs_def split: prod.splits option.splits)

theorem flash_teardown_witness:
  "espLoaderRef readyState = Some (ESPLoader (Transport (SerialPort 1)))
   \<and> firmwareFile readyState = Some appBin
   \<and> isValidAddr (trim (flashAddress readyState))
   \<and> fst (flashFirmware writeFails readyState) = FlashFailed (Error (js ''Timeout''))
   \<and> transportRef (fst (snd (flashFirmware writeFails readyState))) = None
   \<and> espLoaderRef (fst (snd (flashFirmware writeFails readyState))) = None
   \<and> serialPortRef (fst (snd (flashFirmware writeFails readyState))) = None
   \<and> \<not> isConnected (fst (snd (flashFirmware writeFails readyState)))"
proof -
  have l: "espLoaderRef readyState = Some (ESPLoader (Transport (SerialPort 1)))"
    and f: "firmwareFile readyState = Some appBin"
    by (simp_all add: readyState_def initialState_def)
  have a: "isValidAddr (trim (flashAddress readyState))"
    by (simp add: sample_address sample_address_valid)
  have o: "fst (flashFirmware writeFails readyState) = FlashFailed (Error (js ''Timeout''))"
    by (simp add: flashFirmware_def l f a flash_write_def writeFails_def quietFlash_def Let_def
        split: prod.splits)
  from flash_teardown [OF l f a, of writeFails] l f a o show ?thesis by simp
qed

text \<open>
  C1 as stated fails: connected, with a firmware selected and the address \<open>10000\<close>
  (no \<open>0x\<close>), the call fails at the address guard and returns with the loader, the
  transport and the port still bound and the connected flag still set.
\<close>

theorem flash_rejected_keeps_link:
  "fst (flashFirmware quietFlash (readyState\<lparr>flashAddress := js ''10000''\<rparr>)) = InvalidAddress
   \<and> espLoaderRef (fst (snd (flashFirmware quietFlash (readyState\<lparr>flashAddress := js ''10000''\<rparr>))))
       = Some (ESPLoader (Transport (SerialPort 1)))
   \<and> transportRef (fst (snd (flashFirmware quietFlash (readyState\<lparr>flashAddress := js ''10000''\<rparr>))))
       = Some (Transport (SerialPort 1))
   \<and> serialPortRef (fst (snd (flashFirmware quietFlash (readyState\<lparr>flashAddress := js ''10000''\<rparr>))))
       = Some (SerialPort 1)
   \<and> isConnected (fst (snd (flashFirmware quietFlash (readyState\<lparr>flashAddress := js ''10000''\<rparr>))))"
  by (simp add: flashFirmware_def readyState_def initialState_def js_def trim_def
      isWhiteSpace_def isValidAddr_def addLog_def)

text \<open>
  C2, as the code has it. When every progress callback of the write carries the same
  positive total, with \<open>written\<close> non-decreasing and at most the total, the values the
  call publishes never decrease, and on success the last one is 100.
\<close>

theorem flash_progress_monotone:
  assumes "0 < t"
    and "\<forall>(fileIndex, written, total') \<in> set (reports env). total' = t \<and> written \<le> t"
    and "sorted (map (\<lambda>(fileIndex, written, total'). written) (reports env))"
  shows "nondecreasing (published (snd (snd (flashFirmware env s))))
       \<and> (fst (flashFirmware env s) = FlashSucceeded
            \<longrightarrow> last (published (snd (snd (flashFirmware env s)))) = Percent 100)"
proof -
  from reported_sorted [OF assms] obtain ps where ps: "reported env = map Percent ps" "sorted ps"
    "\<forall>p \<in> set ps. 10 \<le> p \<and> p \<le> 100"
    unfolding reported_def by blast
  let ?pub = "published (snd (snd (flashFirmware env s)))"
  have shape: "?pub = [] \<or> ?pub = map Percent [0] \<or> ?pub = map Percent (0 # 10 # ps)
      \<or> ?pub = map Percent (0 # 10 # ps @ [100])"
    by (simp add: published_flash published_write ps(1) split: option.splits)
  have s1: "sorted (0 # 10 # ps)" using ps by auto
  have s2: "sorted (0 # 10 # ps @ [100])" using ps by (auto simp: sorted_append)
  have mono: "nondecreasing ?pub"
    using shape s1 s2 nondecreasing_Percent [of "0 # 10 # ps"]
      nondecreasing_Percent [of "0 # 10 # ps @ [100]"] nondecreasing_Percent [of "[0]"]
    by (elim disjE) (simp_all del: nondecreasing.simps map_append list.map add: nondecreasing.simps(1))
  have final: "last ?pub = Percent 100" if "fst (flashFirmware env s) = FlashSucceeded"
  proof -
    from that have ok: "espLoaderRef s \<noteq> None" "firmwareFile s \<noteq> None"
      "isValidAddr (trim (flashAddress s))"
      by (auto simp: flashFirmware_def Let_def split: option.splits prod.splits if_splits)
    from that ok
    have "fst (flash_write env (the (firmwareFile s)) (parseInt16 (trim (flashAddress s))) s) = None"
      by (auto simp: flashFirmware_def Let_def split: option.splits prod.splits)
    then have "readError env = None" "writeError env = None"
      by (auto simp: write_outcome split: option.splits)
    then show ?thesis using ok by (simp add: published_flash published_write)
  qed
  from mono final show ?thesis by blast
qed

theorem flash_progress_monotone_witness:
  "reports quietFlash = [(0, 2, 4), (0, 4, 4)]
   \<and> published (snd (snd (flashFirmware quietFlash readyState)))
       = [Percent 0, Percent 10, Percent 55, Percent 100, Percent 100]
   \<and> nondecreasing (published (snd (snd (flashFirmware quietFlash readyState))))
   \<and> fst (flashFirmware quietFlash readyState) = FlashSucceeded
   \<and> last (published (snd (snd (flashFirmware quietFlash readyState)))) = Percent 100"
proof -
  have r: "reports quietFlash = [(0, 2, 4), (0, 4, 4)]"
    by (simp add: quietFlash_def)
  have h1: "(0::nat) < 4" by simp
  have h2: "\<forall>(fileIndex, written, total') \<in> set (reports quietFlash). total' = 4 \<and> written \<le> 4"
    by (simp add: r)
  have h3: "sorted (map (\<lambda>(fileIndex, written, total'). written) (reports quietFlash))"
    by (simp add: r)
  have p: "published (snd (snd (flashFirmware quietFlash readyState)))
       = [Percent 0, Percent 10, Percent 55, Percent 100, Percent 100]"
    by (simp add: sample_flash published_Cons)
  have o: "fst (flashFirmware quietFlash readyState) = FlashSucceeded"
    by (simp add: sample_flash)
  from flash_progress_monotone [OF h1 h2 h3, of readyState] r p o show ?thesis
    by (simp only: simp_thms)
qed

text \<open>
  C2 as stated fails. Callbacks \<open>(5, 5)\<close> then \<open>(6, 100)\<close> have \<open>written\<close>
  non-decreasing and at most \<open>total\<close>, and the call publishes 100 and then 15. One
  callback \<open>(0, 0)\<close> has \<open>written\<close> at most \<open>total\<close>, and the call publishes a value that
  is not a number between 10 and 100.
\<close>

theorem flash_progress_not_monotone:
  "reports varyingTotal = [(0, 5, 5), (0, 6, 100)]
   \<and> fst (flashFirmware varyingTotal readyState) = FlashSucceeded
   \<and> published (snd (snd (flashFirmware varyingTotal readyState)))
       = [Percent 0, Percent 10, Percent 100, Percent 15, Percent 100]
   \<and> \<not> nondecreasing (published (snd (snd (flashFirmware varyingTotal readyState))))
   \<and> reports zeroTotal = [(0, 0, 0)]
   \<and> fst (flashFirmware zeroTotal readyState) = FlashSucceeded
   \<and> published (snd (snd (flashFirmware zeroTotal readyState)))
       = [Percent 0, Percent 10, NonFinite, Percent 100]
   \<and> \<not> nondecreasing (published (snd (snd (flashFirmware zeroTotal readyState))))"
proof -
  have r: "reportProgress 0 5 5 = Percent 100" "reportProgress 0 6 100 = Percent 15"
    "reportProgress 0 0 0 = NonFinite"
    by (simp_all add: reportProgress_def js_round_def floor_eq_iff Let_def)
  have ok: "espLoaderRef readyState \<noteq> None \<and> firmwareFile readyState \<noteq> None
      \<and> isValidAddr (trim (flashAddress readyState))"
    by (simp add: sample_address sample_address_valid) (simp add: readyState_def initialState_def)
  have v: "reports varyingTotal = [(0, 5, 5), (0, 6, 100)]"
    "readError varyingTotal = None" "writeError varyingTotal = None"
    and z: "reports zeroTotal = [(0, 0, 0)]"
    "readError zeroTotal = None" "writeError zeroTotal = None"
    by (simp_all add: varyingTotal_def zeroTotal_def quietFlash_def)
  have pv: "published (snd (snd (flashFirmware varyingTotal readyState)))
       = [Percent 0, Percent 10, Percent 100, Percent 15, Percent 100]"
    by (simp add: published_flash ok published_write reported_def v r)
  have pz: "published (snd (snd (flashFirmware zeroTotal readyState)))
       = [Percent 0, Percent 10, NonFinite, Percent 100]"
    by (simp add: published_flash ok published_write reported_def z r)
  have l: "espLoaderRef readyState = Some (ESPLoader (Transport (SerialPort 1)))"
    and f: "firmwareFile readyState = Some appBin"
    by (simp_all add: readyState_def initialState_def)
  have a: "isValidAddr (trim (flashAddress readyState))"
    by (simp add: sample_address sample_address_valid)
  have ov: "fst (flashFirmware varyingTotal readyState) = FlashSucceeded"
    by (rule flash_succeeds [OF l f a v(2) v(3)])
  have oz: "fst (flashFirmware zeroTotal readyState) = FlashSucceeded"
    by (rule flash_succeeds [OF l f a z(2) z(3)])
  show ?thesis by (simp add: v(1) z(1) pv pz ov oz)
qed

text \<open>
  C3, as the code has it. With a loader bound and a firmware selected, the call goes on
  to the write exactly when the address with its leading and trailing white space
  removed matches \<open>^0x[0-9a-fA-F]+$\<close>: it then reads the file and, unless the read
  fails, calls \<open>writeFlash\<close> at the parsed address. Otherwise it ends as
  \<open>InvalidAddress\<close>, performs no external call, and changes nothing but the console
  log, to which it appends one line.
\<close>

theorem flash_address_gate:
  assumes "espLoaderRef s = Some esploader" and "firmwareFile s = Some file"
  shows "(isValidAddr (trim (flashAddress s)) \<longleftrightarrow> fst (flashFirmware env s) \<noteq> InvalidAddress)
       \<and> (isValidAddr (trim (flashAddress s)) \<longrightarrow>
            FileRead \<in> set (snd (snd (flashFirmware env s)))
          \<and> (readError env = None \<longrightarrow>
               WriteFlash (parseInt16 (trim (flashAddress s))) (fileContent file)
                 \<in> set (snd (snd (flashFirmware env s)))))
       \<and> (\<not> isValidAddr (trim (flashAddress s)) \<longrightarrow>
            flashFirmware env s
              = (InvalidAddress, s\<lparr>logs := logs s @ [InvalidFlashAddress]\<rparr>, []))"
  using assms
  by (auto simp: flashFirmware_def flash_write_def addLog_def Let_def
      split: prod.splits option.splits)

theorem flash_address_gate_witness:
  "espLoaderRef readyState = Some (ESPLoader (Transport (SerialPort 1)))
   \<and> firmwareFile readyState = Some appBin
   \<and> isValidAddr (trim (flashAddress readyState))
   \<and> readError quietFlash = None
   \<and> fst (flashFirmware quietFlash readyState) \<noteq> InvalidAddress
   \<and> FileRead \<in> set (snd (snd (flashFirmware quietFlash readyState)))
   \<and> WriteFlash (parseInt16 (trim (flashAddress readyState))) (fileContent appBin)
       \<in> set (snd (snd (flashFirmware quietFlash readyState)))
   \<and> \<not> isValidAddr (trim (flashAddress (readyState\<lparr>flashAddress := js ''0x''\<rparr>)))
   \<and> flashFirmware quietFlash (readyState\<lparr>flashAddress := js ''0x''\<rparr>)
       = (InvalidAddress,
          readyState\<lparr>flashAddress := js ''0x'', logs := [InvalidFlashAddress]\<rparr>, [])"
proof -
  let ?bad = "readyState\<lparr>flashAddress := js ''0x''\<rparr>"
  have l: "espLoaderRef readyState = Some (ESPLoader (Transport (SerialPort 1)))"
    and f: "firmwareFile readyState = Some appBin"
    and l': "espLoaderRef ?bad = Some (ESPLoader (Transport (SerialPort 1)))"
    and f': "firmwareFile ?bad = Some appBin"
    and g: "logs ?bad = []"
    by (simp_all add: readyState_def initialState_def)
  have a: "isValidAddr (trim (flashAddress readyState))"
    by (simp add: sample_address sample_address_valid)
  have b: "\<not> isValidAddr (trim (flashAddress ?bad))"
    by (simp add: js_def trim_def isWhiteSpace_def isValidAddr_def)
  have r: "readError quietFlash = None"
    by (simp add: quietFlash_def)
  from flash_address_gate [OF l f, of quietFlash] flash_address_gate [OF l' f', of quietFlash]
    l f a b r g
  show ?thesis by simp
qed

text \<open>
  C3 as stated fails: the address \<open>" 0x10000"\<close> (with a leading space) does not match
  the pattern, and the call goes on to write at \<open>0x10000\<close>.
\<close>

theorem flash_trims_address:
  "\<not> isValidAddr (js '' 0x10000'')
   \<and> fst (flashFirmware quietFlash (readyState\<lparr>flashAddress := js '' 0x10000''\<rparr>))
       = FlashSucceeded
   \<and> WriteFlash 65536 [0xE9, 0x02, 0x00, 0x20]
       \<in> set (snd (snd (flashFirmware quietFlash (readyState\<lparr>flashAddress := js '' 0x10000''\<rparr>))))"
proof -
  have t: "trim (js '' 0x10000'') = js ''0x10000''"
    by (simp add: js_def trim_def isWhiteSpace_def)
  have n: "\<not> isValidAddr (js '' 0x10000'')"
    by (simp add: js_def isValidAddr_def)
  show ?thesis
    by (simp add: n flashFirmware_def readyState_def initialState_def t sample_address_valid
        sample_parse flash_write_def flash_finalize_def flash_signals_def flash_close_def
        quietFlash_def quietLink_def appBin_def addLog_def addLogs_def Let_def)
qed

text \<open>
  C4, as the code has it. While a flash is in flight the flashing flag is set and the
  flash button is disabled, so a click does not run the handler: nothing is queued,
  no value is published and the state is untouched. The request is not answered with
  \<open>SessionBusy\<close> or with any other outcome.
\<close>

theorem flash_button_gate:
  "(isFlashing s \<longrightarrow> clickFlashButton env s = None)
   \<and> isFlashing (fst (snd (flash_write env' file address s')))
   \<and> clickFlashButton env (fst (snd (flash_write env' file address s'))) = None"
  by (simp add: clickFlashButton_def flashButtonDisabled_def flash_write_def addLog_def
      addLogs_def Let_def split: option.splits)

theorem flash_button_gate_witness:
  "isFlashing (readyState\<lparr>isFlashing := True\<rparr>)
   \<and> clickFlashButton quietFlash (readyState\<lparr>isFlashing := True\<rparr>) = None
   \<and> clickFlashButton quietFlash readyState = Some (flashFirmware quietFlash readyState)"
proof -
  have a: "isFlashing (readyState\<lparr>isFlashing := True\<rparr>)" by simp
  have b: "clickFlashButton quietFlash readyState = Some (flashFirmware quietFlash readyState)"
    by (simp add: clickFlashButton_def flashButtonDisabled_def readyState_def initialState_def)
  from flash_button_gate [of "readyState\<lparr>isFlashing := True\<rparr>" quietFlash] a b
  show ?thesis by simp
qed

text \<open>
  C4 as stated fails: with a device connected, a firmware selected and a write in
  flight at 55 percent, a click on the flash button is not rejected with
  \<open>SessionBusy\<close>. The button is disabled and the handler does not run, so the request
  gets no outcome at all and no line is logged.
\<close>

theorem flash_click_while_busy_unanswered:
  "isConnected busyState \<and> firmwareFile busyState = Some appBin \<and> isFlashing busyState
   \<and> progress busyState = Percent 55
   \<and> flashButtonDisabled busyState
   \<and> clickFlashButton quietFlash busyState = None"
  by (simp add: clickFlashButton_def flashButtonDisabled_def busyState_def readyState_def
      initialState_def)

text \<open>
  C7, on the code. The handshake fails after \<open>main()\<close> has opened the port: the
  \<open>catch\<close> block of \<open>connectToDevice\<close> logs the error and nulls the three refs, and
  that is all. Neither \<open>disconnect()\<close> nor \<open>close()\<close> is called, so the port stays
  open with nothing referring to it. The failure path of \<open>flashFirmware\<close> does
  disconnect the transport before it nulls the refs.
\<close>

theorem connect_failure_leaves_port_open:
  "connectToDevice handshakeTimeout initialState
     = (initialState
          \<lparr>logs := [RequestingPort, ConnectingToDevice,
                    ErrorMsg (js ''Failed to connect with the device'')],
           portReadable := True\<rparr>,
        [RequestPort, LoaderMain])
   \<and> snd (snd (flashFirmware writeFails readyState))
       = [SetProgress (Percent 0), FileRead, SetProgress (Percent 10),
          WriteFlash 65536 [0xE9, 0x02, 0x00, 0x20], SetProgress (Percent 55),
          TransportDisconnect]
   \<and> \<not> portReadable (fst (snd (flashFirmware writeFails readyState)))"
proof -
  have c: "connectToDevice handshakeTimeout initialState
     = (initialState
          \<lparr>logs := [RequestingPort, ConnectingToDevice,
                    ErrorMsg (js ''Failed to connect with the device'')],
           portReadable := True\<rparr>,
        [RequestPort, LoaderMain])"
    by (simp add: connectToDevice_def handshakeTimeout_def initialState_def connect_failed_def
        addLog_def addLogs_def errorMessage_def Let_def)
  have f: "flashFirmware writeFails readyState
     = (FlashFailed (Error (js ''Timeout'')),
        initialState
          \<lparr>progress := Percent 55, firmwareFile := Some appBin,
           logs := [StartingFlash, FileSize 4, WritingFirmware (js ''0x10000''),
                    FlashError (js ''Timeout'')]\<rparr>,
        [SetProgress (Percent 0), FileRead, SetProgress (Percent 10),
         WriteFlash 65536 [0xE9, 0x02, 0x00, 0x20], SetProgress (Percent 55),
         TransportDisconnect])"
    by (simp add: flashFirmware_def sample_trim sample_address_valid sample_parse
        flash_write_def flash_recover_def closeLink_def release_def sample_reports
        writeFails_def quietFlash_def quietLink_def readyState_def initialState_def appBin_def
        addLog_def addLogs_def errorMessage_def Let_def)
  show ?thesis unfolding c f by (simp add: initialState_def)
qed

text \<open>
  C9. \<open>disconnectDevice\<close> returns normally whatever the transport and the port do,
  with the three refs null, the connected flag false and the chip identity empty; when
  closing the link throws, the error ends up in the console log as a warning.
\<close>

theorem disconnect_releases:
  "fst (disconnectDevice env s) = None
   \<and> transportRef (fst (snd (disconnectDevice env s))) = None
   \<and> espLoaderRef (fst (snd (disconnectDevice env s))) = None
   \<and> serialPortRef (fst (snd (disconnectDevice env s))) = None
   \<and> \<not> isConnected (fst (snd (disconnectDevice env s)))
   \<and> chipInfo (fst (snd (disconnectDevice env s))) = []
   \<and> (\<forall>error. fst (closeLink env s) = Some error \<longrightarrow>
         logs (fst (snd (disconnectDevice env s)))
           = logs s @ [DisconnectWarning (errorMessage error)])"
proof -
  obtain r s1 fx where c: "closeLink env s = (r, s1, fx)" by (cases "closeLink env s")
  have l: "logs s1 = logs s" using closeLink_logs [of env s] c by simp
  show ?thesis
    by (cases r) (simp_all add: disconnectDevice_def c release_def addLog_def l)
qed

theorem disconnect_releases_witness:
  "fst (closeLink portBusy readyState) = Some (Error (js ''The port is busy''))
   \<and> fst (disconnectDevice portBusy readyState) = None
   \<and> transportRef (fst (snd (disconnectDevice portBusy readyState))) = None
   \<and> espLoaderRef (fst (snd (disconnectDevice portBusy readyState))) = None
   \<and> serialPortRef (fst (snd (disconnectDevice portBusy readyState))) = None
   \<and> \<not> isConnected (fst (snd (disconnectDevice portBusy readyState)))
   \<and> chipInfo (fst (snd (disconnectDevice portBusy readyState))) = []
   \<and> logs (fst (snd (disconnectDevice portBusy readyState)))
       = [DisconnectWarning (js ''The port is busy'')]"
proof -
  have c: "fst (closeLink portBusy readyState) = Some (Error (js ''The port is busy''))"
    by (simp add: closeLink_def portBusy_def readyState_def initialState_def)
  have g: "logs readyState = []"
    by (simp add: readyState_def initialState_def)
  from disconnect_releases [of portBusy readyState] c g show ?thesis
    by (simp add: errorMessage_def)
qed

section \<open>Facts about the firmware store\<close>








lemma sample_delete:
  "deleteFirmwareFromDB noFaults (js ''app.bin'') storedApp
     = (None, emptyStore, [DbOpen, DbDelete (js ''app.bin'')])"
  by (simp add: deleteFirmwareFromDB_def noFaults_def emptyStore_def storedApp_def
      openDB_def DB_VERSION_def)

section \<open>The properties of the store and of the selection\<close>

text \<open>
  C5, on the code. A \<open>put\<close> whose write request the medium refuses (the database
  itself opens) is answered with that fault as it is: the database is not reset and
  the write is not tried again. When the first open fails and the write of the retry is
  refused, the caller again gets the fault itself, not the message that asks to clear
  local data. Only a failing \<open>openDB\<close> or \<open>resetDatabase\<close> is caught.
\<close>

theorem save_put_fault_not_healed:
  "saveFirmwareToDB putRejected (js ''app.bin'') [0xE9, 0x02, 0x00, 0x20] emptyStore
     = (Some quotaExceeded, emptyStore, [DbOpen, DbPut (js ''app.bin'')])
   \<and> saveFirmwareToDB retryRejected (js ''app.bin'') [0xE9, 0x02, 0x00, 0x20] emptyStore
     = (Some quotaExceeded, emptyStore,
        [DbOpen, DbDeleteDatabase, DbOpen, DbPut (js ''app.bin'')])
   \<and> quotaExceeded \<noteq> storageUnavailable"
  by (simp add: saveFirmwareToDB_def putRejected_def retryRejected_def healed_def
      emptyStore_def openDB_def putRecord_def resetDatabase_def upgrade_def DB_VERSION_def
      quotaExceeded_def storageUnavailable_def js_def)



text \<open>
  C10. When \<open>deleteFirmwareFromStorage name\<close> succeeds, a selection that had that name
  is cleared, so the selection left does not bear the deleted name; when
  \<open>clearAllFirmwares\<close> succeeds, the selection is cleared whatever it was.
\<close>

theorem selection_follows_cache:
  "(deleteFirmwareFromStorage env name s m = (Done, s', m', fx) \<longrightarrow>
      (\<forall>file. firmwareFile s = Some file \<and> fileName file = name \<longrightarrow> firmwareFile s' = None)
    \<and> (\<forall>file. firmwareFile s' = Some file \<longrightarrow> fileName file \<noteq> name))
   \<and> (clearAllFirmwares cenv s m = (Done, s'', m'', fx') \<longrightarrow> firmwareFile s'' = None)"
  by (auto simp: deleteFirmwareFromStorage_def clearAllFirmwares_def loadLocalFirmwares_def
      addLog_def Let_def split: prod.splits option.splits sum.splits if_splits)

theorem selection_follows_cache_witness:
  "firmwareFile readyState = Some appBin \<and> fileName appBin = js ''app.bin''
   \<and> fst (deleteFirmwareFromStorage quietDelete (js ''app.bin'') readyState storedApp) = Done
   \<and> firmwareFile (fst (snd (deleteFirmwareFromStorage quietDelete (js ''app.bin'')
                                readyState storedApp))) = None
   \<and> fst (clearAllFirmwares confirmedClear readyState storedApp) = Done
   \<and> firmwareFile (fst (snd (clearAllFirmwares confirmedClear readyState storedApp))) = None"
proof -
  have f: "firmwareFile readyState = Some appBin" "fileName appBin = js ''app.bin''"
    by (simp_all add: readyState_def initialState_def appBin_def)
  have d: "fst (deleteFirmwareFromStorage quietDelete (js ''app.bin'') readyState storedApp) = Done"
    by (simp add: deleteFirmwareFromStorage_def quietDelete_def sample_delete Let_def
        split: prod.splits)
  have c: "fst (clearAllFirmwares confirmedClear readyState storedApp) = Done"
    by (simp add: clearAllFirmwares_def confirmedClear_def resetDatabase_def Let_def
        split: prod.splits)
  obtain s' m' fx where dd:
    "deleteFirmwareFromStorage quietDelete (js ''app.bin'') readyState storedApp = (Done, s', m', fx)"
    using d by (cases "deleteFirmwareFromStorage quietDelete (js ''app.bin'') readyState storedApp") simp
  obtain s'' m'' fx' where cc:
    "clearAllFirmwares confirmedClear readyState storedApp = (Done, s'', m'', fx')"
    using c by (cases "clearAllFirmwares confirmedClear readyState storedApp") simp
  from selection_follows_cache [of quietDelete "js ''app.bin''" readyState storedApp s' m' fx
      confirmedClear s'' m'' fx'] f dd cc
  show ?thesis by simp
qed

section \<open>The fallback chain of the release feed\<close>

lemma dropWhile_head: "dropWhile P xs = w # rest \<Longrightarrow> \<not> P w"
  by (simp add: dropWhile_eq_Cons_conv)

lemma fetch_proxies_chain:
  "fetch_proxies respond ps s = (r, s', fx) \<Longrightarrow>
   \<forall>p \<in> set ps. respond p \<noteq> Response True Falsy \<Longrightarrow>
     fx = map Fetch (takeWhile (\<lambda>p. succeeded (respond p) = None) ps
                     @ take 1 (dropWhile (\<lambda>p. succeeded (respond p) = None) ps))
   \<and> r = (case dropWhile (\<lambda>p. succeeded (respond p) = None) ps of
            [] \<Rightarrow> None | winner # rest \<Rightarrow> succeeded (respond winner))
   \<and> githubFirmwares s' = githubFirmwares s \<and> showGithubDialog s' = showGithubDialog s"
proof (induction ps arbitrary: s r s' fx)
  case Nil
  then show ?case by simp
next
  case (Cons p ps)
  show ?case
  proof (cases "succeeded (respond p)")
    case (Some rel)
    then have "respond p = Response True (Release rel)"
      by (auto simp: succeeded_def split: fetch_result.splits body.splits if_splits)
    with Cons.prems Some show ?thesis by (auto simp: addLog_def Let_def)
  next
    case None
    obtain r2 s2 fx2 where rec: "fetch_proxies respond ps (addLog (TryingProxy p) s) = (r2, s2, fx2)"
      by (cases "fetch_proxies respond ps (addLog (TryingProxy p) s)")
    from None Cons.prems rec have eq: "r = r2" "s' = s2" "fx = Fetch p # fx2"
      by (auto simp: succeeded_def Let_def split: fetch_result.splits body.splits if_splits)
    from Cons.prems have "\<forall>q \<in> set ps. respond q \<noteq> Response True Falsy" by simp
    from Cons.IH [OF rec this] None eq show ?thesis by (simp add: addLog_def)
  qed
qed

lemma fetch_direct_result:
  "fetch_direct respond s = (r, s') \<Longrightarrow>
     r = succeeded (respond GithubApi)
   \<and> githubFirmwares s' = githubFirmwares s \<and> showGithubDialog s' = showGithubDialog s"
  by (auto simp: fetch_direct_def succeeded_def addLog_def Let_def
      split: fetch_result.splits body.splits if_splits)

lemma fetch_outcome:
  assumes "fetchGithubReleases respond s = (out, s', fx)"
    and "fetch_direct respond (addLog FetchingFromGithub (s\<lparr>isFetchingGithub := True\<rparr>)) = (d, s1)"
    and "(case d of Some rel \<Rightarrow> (Some rel, s1, []) | None \<Rightarrow> fetch_proxies respond corsProxies s1)
           = (r, s2, fx2)"
  shows "fx = Fetch GithubApi # fx2
       \<and> out = (case r of None \<Rightarrow> FetchUnavailable | Some rel \<Rightarrow> Candidates (candidatesOf rel))
       \<and> (\<forall>firmwares. out = Candidates firmwares \<and> firmwares \<noteq> [] \<longrightarrow>
             githubFirmwares s' = firmwares \<and> showGithubDialog s')"
  using assms
  by (cases r) (auto simp: fetchGithubReleases_def candidatesOf_def addLog_def Let_def
      split: if_splits)

lemma fetch_chain:
  assumes "fetchGithubReleases respond s = (out, s', fx)"
    and "\<forall>src. respond src \<noteq> Response True Falsy"
  shows "fx = map Fetch (takeWhile (\<lambda>src. succeeded (respond src) = None) fetchOrder
                         @ take 1 (dropWhile (\<lambda>src. succeeded (respond src) = None) fetchOrder))
       \<and> out = (case dropWhile (\<lambda>src. succeeded (respond src) = None) fetchOrder of
                  [] \<Rightarrow> FetchUnavailable
                | winner # rest \<Rightarrow> Candidates (candidatesOf (the (succeeded (respond winner)))))
       \<and> (\<forall>firmwares. out = Candidates firmwares \<and> firmwares \<noteq> [] \<longrightarrow>
             githubFirmwares s' = firmwares \<and> showGithubDialog s')"
proof -
  let ?P = "\<lambda>src. succeeded (respond src) = None"
  let ?s0 = "addLog FetchingFromGithub (s\<lparr>isFetchingGithub := True\<rparr>)"
  obtain d s1 where d: "fetch_direct respond ?s0 = (d, s1)" by (cases "fetch_direct respond ?s0")
  from fetch_direct_result [OF d] have dr: "d = succeeded (respond GithubApi)" by simp
  obtain r s2 fx2 where
    p: "(case d of Some rel \<Rightarrow> (Some rel, s1, []) | None \<Rightarrow> fetch_proxies respond corsProxies s1)
          = (r, s2, fx2)"
    by (cases "case d of Some rel \<Rightarrow> (Some rel, s1, [])
                | None \<Rightarrow> fetch_proxies respond corsProxies s1")
  note res = fetch_outcome [OF assms(1) d p]
  have "fx2 = map Fetch (tl (takeWhile ?P fetchOrder @ take 1 (dropWhile ?P fetchOrder)))
      \<and> r = (case dropWhile ?P fetchOrder of [] \<Rightarrow> None | winner # rest \<Rightarrow> succeeded (respond winner))
      \<and> takeWhile ?P fetchOrder @ take 1 (dropWhile ?P fetchOrder) \<noteq> []"
  proof (cases d)
    case (Some rel)
    with dr have g: "succeeded (respond GithubApi) = Some rel" by simp
    from p Some have "r = Some rel" "fx2 = []" by auto
    then show ?thesis by (simp add: fetchOrder_def g)
  next
    case None
    with dr have g: "succeeded (respond GithubApi) = None" by simp
    from p None have "fetch_proxies respond corsProxies s1 = (r, s2, fx2)" by simp
    moreover from assms(2) have "\<forall>q \<in> set corsProxies. respond q \<noteq> Response True Falsy"
      by simp
    ultimately show ?thesis
      using fetch_proxies_chain [of respond corsProxies s1 r s2 fx2]
      by (simp add: fetchOrder_def g)
  qed
  then have fx2: "Fetch GithubApi # fx2
        = map Fetch (takeWhile ?P fetchOrder @ take 1 (dropWhile ?P fetchOrder))"
    and r: "r = (case dropWhile ?P fetchOrder of [] \<Rightarrow> None
                 | winner # rest \<Rightarrow> succeeded (respond winner))"
    by (auto simp: fetchOrder_def)
  have out: "(case r of None \<Rightarrow> FetchUnavailable | Some rel \<Rightarrow> Candidates (candidatesOf rel))
      = (case dropWhile ?P fetchOrder of [] \<Rightarrow> FetchUnavailable
         | winner # rest \<Rightarrow> Candidates (candidatesOf (the (succeeded (respond winner)))))"
  proof (cases "dropWhile ?P fetchOrder")
    case Nil
    from r show ?thesis unfolding Nil by simp
  next
    case (Cons w rest)
    from dropWhile_head [OF Cons] obtain rel where "succeeded (respond w) = Some rel" by auto
    with r show ?thesis unfolding Cons by simp
  qed
  from res have a: "fx = Fetch GithubApi # fx2"
    and b: "out = (case r of None \<Rightarrow> FetchUnavailable | Some rel \<Rightarrow> Candidates (candidatesOf rel))"
    and c: "\<forall>firmwares. out = Candidates firmwares \<and> firmwares \<noteq> [] \<longrightarrow>
             githubFirmwares s' = firmwares \<and> showGithubDialog s'"
    by blast+
  have "fx = map Fetch (takeWhile ?P fetchOrder @ take 1 (dropWhile ?P fetchOrder))"
    using a fx2 by (simp only:)
  moreover have "out = (case dropWhile ?P fetchOrder of [] \<Rightarrow> FetchUnavailable
         | winner # rest \<Rightarrow> Candidates (candidatesOf (the (succeeded (respond winner)))))"
    using b out by (simp only:)
  ultimately show ?thesis using c by blast
qed

lemma attempts_distinct:
  assumes "distinct xs"
  shows "distinct (map Fetch (takeWhile P xs @ take 1 (dropWhile P xs)))"
proof -
  let ?n = "Suc (length (takeWhile P xs))"
  have split: "take (Suc (length ys)) (ys @ zs) = ys @ take 1 zs" for ys zs :: "source list"
    by simp
  from split [of "takeWhile P xs" "dropWhile P xs"]
  have "take ?n xs = takeWhile P xs @ take 1 (dropWhile P xs)"
    by (simp only: takeWhile_dropWhile_id)
  then have "distinct (takeWhile P xs @ take 1 (dropWhile P xs)) = distinct (take ?n xs)"
    by (simp only:)
  with assms have "distinct (takeWhile P xs @ take 1 (dropWhile P xs))"
    by (simp only: distinct_take)
  moreover have "inj_on Fetch (set (takeWhile P xs @ take 1 (dropWhile P xs)))"
    by (simp add: inj_on_def)
  ultimately show ?thesis by (simp only: distinct_map simp_thms)
qed

lemma sample_candidates:
  "candidatesOf sampleRelease = [\<lparr>fwName = js ''app.bin'', fwUrl = js ''https://h/app.bin''\<rparr>]"
  by (simp add: candidatesOf_def sampleRelease_def toFirmwares_def endsWith_def js_def)

lemma sample_null_from_proxy:
  "fetchGithubReleases nullFromProxy initialState
     = (FetchUnavailable,
        initialState
          \<lparr>logs := [FetchingFromGithub, TryingGithubApi, TryingProxy AllOrigins,
                    FetchedVia AllOrigins] @ fetchFailedNotes\<rparr>,
        [Fetch GithubApi, Fetch AllOrigins])"
  by (simp add: fetchGithubReleases_def fetch_direct_def corsProxies_def nullFromProxy_def
      initialState_def addLog_def addLogs_def Let_def)

text \<open>
  C6, as the code has it. Provided no attempt answers with a success status and a
  JSON body that is a falsy value: the attempts are the direct call, then
  \<open>allOrigins\<close>, then \<open>corsProxy\<close>, each made at most once and in this order; they stop
  at the first attempt that answers with a success status and a body that parses as
  JSON (an attempt whose body does not parse counts as failed). The result is that
  attempt's assets whose name ends in \<open>.bin\<close>, each as its name and download URL, and a
  non-empty result becomes the list the page shows. When no attempt yields a release
  the fetch is unavailable.
\<close>

theorem fetch_fallback_chain:
  assumes "\<forall>src. respond src \<noteq> Response True Falsy"
  shows "snd (snd (fetchGithubReleases respond s))
     = map Fetch (takeWhile (\<lambda>src. succeeded (respond src) = None) fetchOrder
                  @ take 1 (dropWhile (\<lambda>src. succeeded (respond src) = None) fetchOrder))
   \<and> fst (fetchGithubReleases respond s)
     = (case dropWhile (\<lambda>src. succeeded (respond src) = None) fetchOrder of
          [] \<Rightarrow> FetchUnavailable
        | winner # rest \<Rightarrow> Candidates (candidatesOf (the (succeeded (respond winner)))))
   \<and> (\<forall>firmwares. fst (fetchGithubReleases respond s) = Candidates firmwares
                    \<and> firmwares \<noteq> [] \<longrightarrow>
         githubFirmwares (fst (snd (fetchGithubReleases respond s))) = firmwares
       \<and> showGithubDialog (fst (snd (fetchGithubReleases respond s))))
   \<and> distinct (snd (snd (fetchGithubReleases respond s)))"
proof -
  have "fetchGithubReleases respond s
          = (fst (fetchGithubReleases respond s), fst (snd (fetchGithubReleases respond s)),
             snd (snd (fetchGithubReleases respond s)))"
    by simp
  note chain = fetch_chain [OF this assms]
  have "distinct fetchOrder"
    by (simp add: fetchOrder_def corsProxies_def)
  from attempts_distinct [OF this, of "\<lambda>src. succeeded (respond src) = None"] chain
  have "distinct (snd (snd (fetchGithubReleases respond s)))"
    by (simp only:)
  with chain show ?thesis by blast
qed

theorem fetch_fallback_chain_witness:
  "(\<forall>src. secondFallback src \<noteq> Response True Falsy)
   \<and> fetchOrder = [GithubApi, AllOrigins, CorsProxy]
   \<and> succeeded (secondFallback GithubApi) = None
   \<and> succeeded (secondFallback AllOrigins) = None
   \<and> succeeded (secondFallback CorsProxy) = Some sampleRelease
   \<and> snd (snd (fetchGithubReleases secondFallback initialState))
       = [Fetch GithubApi, Fetch AllOrigins, Fetch CorsProxy]
   \<and> fst (fetchGithubReleases secondFallback initialState)
       = Candidates [\<lparr>fwName = js ''app.bin'', fwUrl = js ''https://h/app.bin''\<rparr>]
   \<and> githubFirmwares (fst (snd (fetchGithubReleases secondFallback initialState)))
       = [\<lparr>fwName = js ''app.bin'', fwUrl = js ''https://h/app.bin''\<rparr>]"
proof -
  have h: "\<forall>src. secondFallback src \<noteq> Response True Falsy"
  proof
    fix src show "secondFallback src \<noteq> Response True Falsy"
      by (cases src) (simp_all add: secondFallback_def)
  qed
  have o: "fetchOrder = [GithubApi, AllOrigins, CorsProxy]"
    by (simp add: fetchOrder_def corsProxies_def)
  have a: "succeeded (secondFallback GithubApi) = None"
    "succeeded (secondFallback AllOrigins) = None"
    "succeeded (secondFallback CorsProxy) = Some sampleRelease"
    by (simp_all add: succeeded_def secondFallback_def)
  from fetch_fallback_chain [OF h, of initialState] h
  show ?thesis by (simp add: o a sample_candidates)
qed

text \<open>
  C6 as stated fails: the direct call answers with a success status and a body that
  is not JSON. The chain does not stop there; it goes on to the first proxy and
  returns the proxy's candidates.
\<close>

theorem fetch_continues_past_unparseable:
  "successStatus (htmlFromApi GithubApi)
   \<and> snd (snd (fetchGithubReleases htmlFromApi initialState)) = [Fetch GithubApi, Fetch AllOrigins]
   \<and> fst (fetchGithubReleases htmlFromApi initialState)
       = Candidates [\<lparr>fwName = js ''app.bin'', fwUrl = js ''https://h/app.bin''\<rparr>]"
  by (simp add: successStatus_def htmlFromApi_def fetchGithubReleases_def fetch_direct_def
      corsProxies_def sample_candidates [unfolded candidatesOf_def] Let_def split: prod.splits)

end
